theory Spec2Isabelle
  imports Complex_Main "HOL-Library.AList"
begin

section \<open>Churn notebook: metrics, sampler and column fixing\<close>

text \<open>
  The notebook \<^verbatim>\<open>examples/jupyter/Churn.ipynb\<close> is embedded function by function.
  Python exceptions are values of \<open>py_error\<close>; a function that can raise returns
  \<open>py_error + 'a\<close> with \<open>Inl\<close> for the exception.

  Prediction scores and labels are floating-point numbers in the notebook. They are
  idealised as \<open>real\<close>: the metric code only multiplies a score by a sign, compares with
  zero, counts, and divides two counts, and none of the statements below depends on
  rounding. NaN scores are outside the model.
\<close>

datatype py_error =
  ZeroDivisionError | KeyError | ValueError | IndexError | UnboundLocalError

subsection \<open>Cell 5: \<open>error_rate\<close>\<close>

text \<open>
  \<^verbatim>\<open>
  def error_rate(predictions, labels):
      signed_labels = (
        (labels > 0).astype(np.float32) - (labels <= 0).astype(np.float32))
      numerator = (np.multiply(signed_labels, predictions) <= 0).sum()
      denominator = predictions.shape[0]
      return float(numerator) / float(denominator)
  \<close>
  A column (an array or a one-column frame of shape \<open>(n, 1)\<close>) is the list of its
  \<open>n\<close> entries. \<open>np_multiply\<close> is the element-wise product of the values, row by
  row, with numpy's broadcasting along the row axis: equal lengths pair up, an operand
  with one row is repeated, any other pair of lengths raises \<open>ValueError\<close>. (The
  notebook passes one-column frames with different column names; the product is taken
  on their values, as in the run whose outputs the notebook records.) Python's float
  division raises \<open>ZeroDivisionError\<close> on a zero denominator.
\<close>

definition astype_float :: "bool \<Rightarrow> real" where
  "astype_float b = (if b then 1 else 0)"

definition signed_labels_of :: "real list \<Rightarrow> real list" where
  "signed_labels_of labels =
     map (\<lambda>l. astype_float (l > 0) - astype_float (l \<le> 0)) labels"

definition np_multiply :: "real list \<Rightarrow> real list \<Rightarrow> py_error + real list" where
  "np_multiply xs ys =
     (if length xs = length ys then Inr (map2 (*) xs ys)
      else if length xs = 1 then Inr (map (\<lambda>y. hd xs * y) ys)
      else if length ys = 1 then Inr (map (\<lambda>x. x * hd ys) xs)
      else Inl ValueError)"

definition py_float_div :: "real \<Rightarrow> real \<Rightarrow> py_error + real" where
  "py_float_div a b = (if b = 0 then Inl ZeroDivisionError else Inr (a / b))"

definition error_rate :: "real list \<Rightarrow> real list \<Rightarrow> py_error + real" where
  "error_rate predictions labels =
     (let signed_labels = signed_labels_of labels in
      case np_multiply signed_labels predictions of
        Inl e \<Rightarrow> Inl e
      | Inr margins \<Rightarrow>
          (let numerator = length (filter (\<lambda>z. z \<le> 0) margins);
               denominator = length predictions
           in py_float_div (real numerator) (real denominator)))"

subsection \<open>Dataframes\<close>

text \<open>
  A dataframe is its number of rows \<open>shape0\<close> (the length of its index, \<open>df.shape[0]\<close>)
  and its columns in order,
  each a name with the list of its cells. Column names are taken to be distinct, as they
  are in the notebook's data. The operations used by the notebook:
  \<^item> \<open>df.columns\<close> is \<open>df_columns\<close>;
  \<^item> \<open>df[c]\<close> and \<open>df[[c]]\<close> read one column and raise \<open>KeyError\<close> when it is missing;
  \<^item> \<open>df[cs]\<close> with a list of names selects those columns in that order and raises
    \<open>KeyError\<close> when one of them is missing;
  \<^item> \<open>df[c] = values\<close> replaces column \<open>c\<close> in place or appends it as the last column,
    and raises \<open>ValueError\<close> when the number of values is not the number of rows;
  \<^item> \<open>df[c] = 0\<close> does the same with a column filled with the scalar.
\<close>

record 'v dataframe =
  shape0 :: nat
  columns :: "(string \<times> 'v list) list"

definition df_columns :: "'v dataframe \<Rightarrow> string list" where
  "df_columns df = map fst (columns df)"

definition getitem :: "'v dataframe \<Rightarrow> string \<Rightarrow> py_error + 'v list" where
  "getitem df c =
     (case map_of (columns df) c of None \<Rightarrow> Inl KeyError | Some xs \<Rightarrow> Inr xs)"

definition getitem_list :: "'v dataframe \<Rightarrow> string list \<Rightarrow> py_error + 'v dataframe" where
  "getitem_list df cs =
     (if list_all (\<lambda>c. c \<in> set (df_columns df)) cs
      then Inr (df\<lparr>columns := map (\<lambda>c. (c, the (map_of (columns df) c))) cs\<rparr>)
      else Inl KeyError)"

definition setitem :: "'v dataframe \<Rightarrow> string \<Rightarrow> 'v list \<Rightarrow> py_error + 'v dataframe" where
  "setitem df c xs =
     (if length xs = shape0 df
      then Inr (df\<lparr>columns := AList.update c xs (columns df)\<rparr>)
      else Inl ValueError)"

definition setitem_scalar :: "'v dataframe \<Rightarrow> string \<Rightarrow> 'v \<Rightarrow> 'v dataframe" where
  "setitem_scalar df c v =
     df\<lparr>columns := AList.update c (replicate (shape0 df) v) (columns df)\<rparr>"

subsection \<open>Cell 2: \<open>fix_columns\<close> and \<open>binarize_categorical_columns\<close>\<close>

text \<open>
  \<^verbatim>\<open>
  def fix_columns(input_train_df, input_test_df):
      test_df_missing_cols = set(input_train_df.columns) - set(input_test_df.columns)
      for c in test_df_missing_cols:
          input_test_df[c] = 0
          train_df_missing_cols = set(input_test_df.columns) - set(input_train_df.columns)
      for c in train_df_missing_cols:
          input_train_df[c] = 0
          input_train_df = input_train_df[input_test_df.columns]
      return input_train_df, input_test_df
  \<close>
  A Python set of column names is a duplicate-free list; the loops visit it in column
  order (Python leaves the order open, and neither the raised exception nor the set of
  columns of the result depends on it). The local variable \<open>train_df_missing_cols\<close> is
  assigned inside the first loop only: it is \<open>None\<close> (unbound) until the first
  iteration has run, and reading it unbound raises \<open>UnboundLocalError\<close>.
\<close>

definition set_difference :: "string list \<Rightarrow> string list \<Rightarrow> string list" where
  "set_difference xs ys = remdups (filter (\<lambda>c. c \<notin> set ys) xs)"

fun fix_test_loop ::
  "string list \<Rightarrow> 'v::zero dataframe \<Rightarrow> 'v dataframe \<Rightarrow> string list option \<Rightarrow>
   'v dataframe \<times> string list option" where
  "fix_test_loop [] input_train_df input_test_df train_df_missing_cols =
     (input_test_df, train_df_missing_cols)"
| "fix_test_loop (c # cs) input_train_df input_test_df train_df_missing_cols =
     (let input_test_df' = setitem_scalar input_test_df c 0;
          train_df_missing_cols' =
            set_difference (df_columns input_test_df') (df_columns input_train_df)
      in fix_test_loop cs input_train_df input_test_df' (Some train_df_missing_cols'))"

fun fix_train_loop ::
  "string list \<Rightarrow> 'v::zero dataframe \<Rightarrow> 'v dataframe \<Rightarrow> py_error + 'v dataframe" where
  "fix_train_loop [] input_train_df input_test_df = Inr input_train_df"
| "fix_train_loop (c # cs) input_train_df input_test_df =
     (let input_train_df' = setitem_scalar input_train_df c 0 in
      case getitem_list input_train_df' (df_columns input_test_df) of
        Inl e \<Rightarrow> Inl e
      | Inr input_train_df'' \<Rightarrow> fix_train_loop cs input_train_df'' input_test_df)"

definition fix_columns ::
  "'v::zero dataframe \<Rightarrow> 'v dataframe \<Rightarrow> py_error + 'v dataframe \<times> 'v dataframe" where
  "fix_columns input_train_df input_test_df =
     (let test_df_missing_cols =
            set_difference (df_columns input_train_df) (df_columns input_test_df);
          (input_test_df', train_df_missing_cols) =
            fix_test_loop test_df_missing_cols input_train_df input_test_df None
      in case train_df_missing_cols of
           None \<Rightarrow> Inl UnboundLocalError
         | Some cs \<Rightarrow>
             (case fix_train_loop cs input_train_df input_test_df' of
                Inl e \<Rightarrow> Inl e
              | Inr input_train_df' \<Rightarrow> Inr (input_train_df', input_test_df')))"

text \<open>
  \<^verbatim>\<open>
  def binarize_categorical_columns(input_train_df, input_test_df, categorical_columns=[]):
      binarized_train_df = pd.get_dummies(input_train_df, columns=categorical_columns)
      binarized_test_df = pd.get_dummies(input_test_df, columns=categorical_columns)
      fixed_train_df, fixed_test_df = fix_columns(binarized_train_df, binarized_test_df)
      return fixed_train_df, fixed_test_df
  \<close>
  \<open>pd.get_dummies\<close> belongs to the dataframe library; it is a parameter of the model.
\<close>

definition binarize_categorical_columns ::
  "('a dataframe \<Rightarrow> string list \<Rightarrow> 'v::zero dataframe) \<Rightarrow>
   'a dataframe \<Rightarrow> 'a dataframe \<Rightarrow> string list \<Rightarrow>
   py_error + 'v dataframe \<times> 'v dataframe" where
  "binarize_categorical_columns get_dummies input_train_df input_test_df categorical_columns =
     (let binarized_train_df = get_dummies input_train_df categorical_columns;
          binarized_test_df = get_dummies input_test_df categorical_columns
      in fix_columns binarized_train_df binarized_test_df)"

text \<open>
  With an empty list of columns to encode, \<open>pd.get_dummies\<close> returns the frame with the
  columns it had.
\<close>

definition get_dummies_no_columns :: "'v dataframe \<Rightarrow> string list \<Rightarrow> 'v dataframe" where
  "get_dummies_no_columns df categorical_columns = df"

subsection \<open>Cell 5: \<open>_get_error_rate_and_constraints\<close>\<close>

text \<open>
  \<^verbatim>\<open>
  def _get_error_rate_and_constraints(df, max_churn_rate):
      error_rate_local = error_rate(df[['predictions']], df[[LABEL_COLUMN]])
      error_rate_churn = error_rate(df[['predictions']], df[[CHURN_COLUMN]])
      return error_rate_local, error_rate_churn - max_churn_rate
  \<close>
  (An Isabelle name cannot start with an underscore.)
\<close>

definition LABEL_COLUMN :: string where
  "LABEL_COLUMN = ''label''"

definition CHURN_COLUMN :: string where
  "CHURN_COLUMN = ''churn_label''"

definition py_bind :: "py_error + 'a \<Rightarrow> ('a \<Rightarrow> py_error + 'b) \<Rightarrow> py_error + 'b" where
  "py_bind r f = (case r of Inl e \<Rightarrow> Inl e | Inr x \<Rightarrow> f x)"

definition get_error_rate_and_constraints ::
  "real dataframe \<Rightarrow> real \<Rightarrow> py_error + real \<times> real" where
  "get_error_rate_and_constraints df max_churn_rate =
     py_bind (getitem df ''predictions'') (\<lambda>predictions.
     py_bind (getitem df LABEL_COLUMN) (\<lambda>labels.
     py_bind (error_rate predictions labels) (\<lambda>error_rate_local.
     py_bind (getitem df ''predictions'') (\<lambda>predictions'.
     py_bind (getitem df CHURN_COLUMN) (\<lambda>churn_labels.
     py_bind (error_rate predictions' churn_labels) (\<lambda>error_rate_churn.
     Inr (error_rate_local, error_rate_churn - max_churn_rate)))))))"

text \<open>
  The glossary's churn, in the spec's words: the fraction of examples whose predicted
  label flips between the old and the new model, a predicted label being positive
  exactly when the score is strictly greater than 0.
\<close>

definition predicted_positive :: "real \<Rightarrow> bool" where
  "predicted_positive score = (score > 0)"

definition spec_churn :: "real list \<Rightarrow> real list \<Rightarrow> real" where
  "spec_churn old_scores new_scores =
     real (length (filter
       (\<lambda>i. predicted_positive (old_scores ! i) \<noteq> predicted_positive (new_scores ! i))
       [0..<length new_scores]))
     / real (length new_scores)"

subsection \<open>Cell 5: \<open>training_helper\<close>\<close>

text \<open>
  \<^verbatim>\<open>
  def training_helper(model, train_df, test_df, minibatch_size,
                      num_iterations_per_loop=1, num_loops=1):
      train_error_rate_vector = []
      train_constraints_matrix = []
      test_error_rate_vector = []
      test_constraints_matrix = []
      for train, test in training_generator(
        model, train_df, test_df, minibatch_size, num_iterations_per_loop,
        num_loops):
          train_df['predictions'] = train
          test_df['predictions'] = test

          train_error_rate, train_constraints = _get_error_rate_and_constraints(
            train_df, model.max_churn_rate)
          train_error_rate_vector.append(train_error_rate)
          train_constraints_matrix.append(train_constraints)

          test_error_rate, test_constraints = _get_error_rate_and_constraints(
              test_df, model.max_churn_rate)
          test_error_rate_vector.append(test_error_rate)
          test_constraints_matrix.append(test_constraints)

      return (train_error_rate_vector, train_constraints_matrix,
              test_error_rate_vector, test_constraints_matrix)
  \<close>
  The two dataframes are the caller's objects and are changed in place, so they are part
  of the state, and the state is kept when an exception leaves the loop: the result is
  the state at the return or at the raise, with the exception if there was one. The
  pairs \<open>(train, test)\<close> that the generator yields are computed by the framework's
  session; they are the argument \<open>yields\<close>. The body of the \<open>for\<close> loop is
  \<open>training_step\<close>. The two frames are different objects, as in the notebook.
\<close>

record helper_state =
  train_df :: "real dataframe"
  test_df :: "real dataframe"
  train_error_rate_vector :: "real list"
  train_constraints_matrix :: "real list"
  test_error_rate_vector :: "real list"
  test_constraints_matrix :: "real list"

definition training_step ::
  "real \<Rightarrow> real list \<times> real list \<Rightarrow> helper_state \<Rightarrow> helper_state \<times> py_error option"
  where
  "training_step max_churn_rate yielded st =
     (case yielded of (train, test) \<Rightarrow>
      case setitem (train_df st) ''predictions'' train of
        Inl e \<Rightarrow> (st, Some e)
      | Inr train_df' \<Rightarrow>
     (let st1 = st\<lparr>train_df := train_df'\<rparr> in
      case setitem (test_df st1) ''predictions'' test of
        Inl e \<Rightarrow> (st1, Some e)
      | Inr test_df' \<Rightarrow>
     (let st2 = st1\<lparr>test_df := test_df'\<rparr> in
      case get_error_rate_and_constraints (train_df st2) max_churn_rate of
        Inl e \<Rightarrow> (st2, Some e)
      | Inr (train_error_rate, train_constraints) \<Rightarrow>
     (let st3 = st2\<lparr>train_error_rate_vector :=
                       train_error_rate_vector st2 @ [train_error_rate],
                     train_constraints_matrix :=
                       train_constraints_matrix st2 @ [train_constraints]\<rparr> in
      case get_error_rate_and_constraints (test_df st3) max_churn_rate of
        Inl e \<Rightarrow> (st3, Some e)
      | Inr (test_error_rate, test_constraints) \<Rightarrow>
          (st3\<lparr>test_error_rate_vector :=
                  test_error_rate_vector st3 @ [test_error_rate],
                test_constraints_matrix :=
                  test_constraints_matrix st3 @ [test_constraints]\<rparr>, None)))))"

fun training_loop ::
  "real \<Rightarrow> (real list \<times> real list) list \<Rightarrow> helper_state \<Rightarrow>
   helper_state \<times> py_error option" where
  "training_loop max_churn_rate [] st = (st, None)"
| "training_loop max_churn_rate (yielded # yields) st =
     (case training_step max_churn_rate yielded st of
        (st', Some e) \<Rightarrow> (st', Some e)
      | (st', None) \<Rightarrow> training_loop max_churn_rate yields st')"

definition training_helper ::
  "real \<Rightarrow> real dataframe \<Rightarrow> real dataframe \<Rightarrow> (real list \<times> real list) list \<Rightarrow>
   helper_state \<times> py_error option" where
  "training_helper max_churn_rate train_df0 test_df0 yields =
     training_loop max_churn_rate yields
       \<lparr>train_df = train_df0, test_df = test_df0,
        train_error_rate_vector = [], train_constraints_matrix = [],
        test_error_rate_vector = [], test_constraints_matrix = []\<rparr>"

text \<open>The columns of a frame other than \<open>predictions\<close>, in order.\<close>

definition other_columns :: "'v dataframe \<Rightarrow> (string \<times> 'v list) list" where
  "other_columns df = filter (\<lambda>col. fst col \<noteq> ''predictions'') (columns df)"

subsection \<open>Cell 4: the minibatch sampler of \<open>training_generator\<close>\<close>

text \<open>
  \<^verbatim>\<open>
  num_rows = train_df.shape[0]
  minibatch_size = min(minibatch_size, num_rows)
  permutation = list(range(train_df.shape[0]))
  random.shuffle(permutation)
  ...
  minibatch_start_index = 0
  for n in xrange(num_loops):
      for _ in xrange(num_iterations_per_loop):
          minibatch_indices = []
          while len(minibatch_indices) < minibatch_size:
              minibatch_end_index = (
              minibatch_start_index + minibatch_size - len(minibatch_indices))
              if minibatch_end_index >= num_rows:
                  minibatch_indices += range(minibatch_start_index, num_rows)
                  minibatch_start_index = 0
              else:
                  minibatch_indices += range(minibatch_start_index, minibatch_end_index)
                  minibatch_start_index = minibatch_end_index
          session.run(
                model.train_op,
                feed_dict=model.feed_dict_helper(
                    train_df.iloc[[permutation[ii] for ii in minibatch_indices]]))
      ...
      yield (train_predictions, test_predictions)
  \<close>
  Python integers are \<open>int\<close>. The body of the \<open>while\<close> loop is \<open>gather_step\<close>; the loop
  itself may fail to return for some arguments, so it is a partial function whose value
  \<open>None\<close> means that it does not return.
\<close>

definition py_range :: "int \<Rightarrow> int \<Rightarrow> int list" where
  "py_range a b = [a..b - 1]"

record sampler =
  minibatch_indices :: "int list"
  minibatch_start_index :: int

definition gather_step :: "int \<Rightarrow> int \<Rightarrow> sampler \<Rightarrow> sampler" where
  "gather_step minibatch_size num_rows st =
     (let minibatch_end_index =
            minibatch_start_index st + minibatch_size - int (length (minibatch_indices st))
      in if minibatch_end_index \<ge> num_rows
         then \<lparr>minibatch_indices =
                 minibatch_indices st @ py_range (minibatch_start_index st) num_rows,
               minibatch_start_index = 0\<rparr>
         else \<lparr>minibatch_indices =
                 minibatch_indices st @ py_range (minibatch_start_index st) minibatch_end_index,
               minibatch_start_index = minibatch_end_index\<rparr>)"

partial_function (option) gather_while :: "int \<Rightarrow> int \<Rightarrow> sampler \<Rightarrow> sampler option" where
  "gather_while minibatch_size num_rows st =
     (if int (length (minibatch_indices st)) < minibatch_size
      then gather_while minibatch_size num_rows (gather_step minibatch_size num_rows st)
      else Some st)"

text \<open>
  \<open>permutation[ii]\<close>: a Python list read, where a negative index counts from the end
  and an index out of range raises \<open>IndexError\<close>. \<open>select_rows\<close> is the list
  comprehension \<open>[permutation[ii] for ii in minibatch_indices]\<close>.
\<close>

definition py_list_get :: "'a list \<Rightarrow> int \<Rightarrow> py_error + 'a" where
  "py_list_get xs i =
     (let n = int (length xs); j = (if i < 0 then n + i else i)
      in if 0 \<le> j \<and> j < n then Inr (xs ! nat j) else Inl IndexError)"

fun select_rows :: "nat list \<Rightarrow> int list \<Rightarrow> py_error + nat list" where
  "select_rows permutation [] = Inr []"
| "select_rows permutation (ii # iis) =
     (case py_list_get permutation ii of
        Inl e \<Rightarrow> Inl e
      | Inr row \<Rightarrow>
          (case select_rows permutation iis of
             Inl e \<Rightarrow> Inl e
           | Inr rows \<Rightarrow> Inr (row # rows)))"

text \<open>
  A run of the generator either does not return, raises, or returns. What the model
  keeps of a training iteration is the list of dataset rows it feeds to the session;
  the result of a loop (one \<open>yield\<close>) is the list of the feeds of its iterations.
\<close>

datatype 'a outcome = Diverges | Raises py_error | Returns 'a

fun run_iterations ::
  "nat list \<Rightarrow> int \<Rightarrow> int \<Rightarrow> nat \<Rightarrow> int \<Rightarrow> (nat list list \<times> int) outcome" where
  "run_iterations permutation minibatch_size num_rows 0 start = Returns ([], start)"
| "run_iterations permutation minibatch_size num_rows (Suc k) start =
     (case gather_while minibatch_size num_rows
             \<lparr>minibatch_indices = [], minibatch_start_index = start\<rparr> of
        None \<Rightarrow> Diverges
      | Some st \<Rightarrow>
          (case select_rows permutation (minibatch_indices st) of
             Inl e \<Rightarrow> Raises e
           | Inr rows \<Rightarrow>
               (case run_iterations permutation minibatch_size num_rows k
                       (minibatch_start_index st) of
                  Diverges \<Rightarrow> Diverges
                | Raises e \<Rightarrow> Raises e
                | Returns (feeds, start') \<Rightarrow> Returns (rows # feeds, start'))))"

fun run_loops ::
  "nat list \<Rightarrow> int \<Rightarrow> int \<Rightarrow> nat \<Rightarrow> nat \<Rightarrow> int \<Rightarrow> (nat list list list) outcome" where
  "run_loops permutation minibatch_size num_rows num_iterations_per_loop 0 start = Returns []"
| "run_loops permutation minibatch_size num_rows num_iterations_per_loop (Suc n) start =
     (case run_iterations permutation minibatch_size num_rows num_iterations_per_loop start of
        Diverges \<Rightarrow> Diverges
      | Raises e \<Rightarrow> Raises e
      | Returns (feeds, start') \<Rightarrow>
          (case run_loops permutation minibatch_size num_rows num_iterations_per_loop n start' of
             Diverges \<Rightarrow> Diverges
           | Raises e \<Rightarrow> Raises e
           | Returns loops \<Rightarrow> Returns (feeds # loops)))"

text \<open>
  The shuffled \<open>permutation\<close> (fixed by the seed) is an argument; \<open>num_rows\<close> is its
  length. \<open>xrange\<close> of a count is taken with the count as a natural number.
\<close>

definition training_generator ::
  "nat list \<Rightarrow> int \<Rightarrow> nat \<Rightarrow> nat \<Rightarrow> (nat list list list) outcome" where
  "training_generator permutation minibatch_size num_iterations_per_loop num_loops =
     (let num_rows = int (length permutation);
          minibatch_size' = min minibatch_size num_rows
      in run_loops permutation minibatch_size' num_rows num_iterations_per_loop num_loops 0)"

subsection \<open>Cell 3: \<open>_construct_model\<close> and \<open>Model\<close>\<close>

text \<open>
  \<^verbatim>\<open>
  def _construct_model(input_tensor, hidden_units=None):
      hidden = input_tensor
      if hidden_units:
          hidden = tf.layers.dense(
              inputs=input_tensor,
              units=hidden_units,
              activation=tf.nn.relu)
      output = tf.layers.dense(
          inputs=hidden,
          units=1,
          activation=None)
      return output
  \<close>
  The calls into the framework are kept as terms: a tensor is a placeholder or the
  result of \<open>tf.layers.dense\<close> on a tensor, with its number of units and its activation.
  \<open>hidden_units\<close> is \<open>None\<close> or an integer; \<open>py_truthy\<close> is Python's truth value of it.
\<close>

datatype activation = Relu

datatype tensor =
  Placeholder string
  | Dense tensor int "activation option"

text \<open>The number of dense layers a tensor is built from.\<close>

fun dense_layers :: "tensor \<Rightarrow> nat" where
  "dense_layers (Placeholder name) = 0"
| "dense_layers (Dense inputs units act) = Suc (dense_layers inputs)"

definition py_truthy :: "int option \<Rightarrow> bool" where
  "py_truthy v = (case v of None \<Rightarrow> False | Some k \<Rightarrow> k \<noteq> 0)"

definition construct_model :: "tensor \<Rightarrow> int option \<Rightarrow> tensor" where
  "construct_model input_tensor hidden_units =
     (let hidden =
            (if py_truthy hidden_units
             then Dense input_tensor (the hidden_units) (Some Relu)
             else input_tensor);
          output = Dense hidden 1 None
      in output)"

text \<open>
  \<^verbatim>\<open>
  def build_train_op(self, learning_rate, train_with_churn=False):
      ctx = tfco.rate_context(self.predictions_tensor, self.labels_placeholder)
      ctx_churn = tfco.rate_context(self.predictions_tensor, self.churn_placeholder)
      constraints = [tfco.error_rate(ctx_churn) <= self.max_churn_rate] if train_with_churn else []
      mp = tfco.RateMinimizationProblem(tfco.error_rate(ctx), constraints)
      opt = tfco.LagrangianOptimizerV1(tf.train.AdamOptimizer(learning_rate))
      self.train_op = opt.minimize(mp)
      return self.train_op
  \<close>
  The optimization library's objects are terms as well: a rate context of predictions
  and labels, the error rate over a context, a constraint \<open>expression <= bound\<close>, the
  minimization problem, the optimizer and the training operation.
\<close>

datatype rate_context = Rate_context tensor tensor

datatype rate_expression = Tfco_error_rate rate_context

datatype rate_constraint = Upper_bound rate_expression real

datatype minimization_problem =
  RateMinimizationProblem (objective_of: rate_expression) (constraints_of: "rate_constraint list")

datatype optimizer = AdamOptimizer real | LagrangianOptimizerV1 optimizer

datatype train_operation =
  Minimize (optimizer_of: optimizer) (problem_of: minimization_problem)

record model =
  max_churn_rate :: real
  features_placeholder :: tensor
  labels_placeholder :: tensor
  churn_placeholder :: tensor
  predictions_tensor :: tensor
  train_op :: "train_operation option"

definition Model_init :: "int option \<Rightarrow> real \<Rightarrow> model" where
  "Model_init hidden_units max_churn =
     \<lparr>max_churn_rate = max_churn,
      features_placeholder = Placeholder ''features_placeholder'',
      labels_placeholder = Placeholder ''labels_placeholder'',
      churn_placeholder = Placeholder ''churn_placeholder'',
      predictions_tensor =
        construct_model (Placeholder ''features_placeholder'') hidden_units,
      train_op = None\<rparr>"

definition build_train_op :: "model \<Rightarrow> real \<Rightarrow> bool \<Rightarrow> train_operation \<times> model" where
  "build_train_op self learning_rate train_with_churn =
     (let ctx = Rate_context (predictions_tensor self) (labels_placeholder self);
          ctx_churn = Rate_context (predictions_tensor self) (churn_placeholder self);
          constraints =
            (if train_with_churn
             then [Upper_bound (Tfco_error_rate ctx_churn) (max_churn_rate self)]
             else []);
          mp = RateMinimizationProblem (Tfco_error_rate ctx) constraints;
          opt = LagrangianOptimizerV1 (AdamOptimizer learning_rate);
          op = Minimize opt mp
      in (op, self\<lparr>train_op := Some op\<rparr>))"

section \<open>Properties of \<open>error_rate\<close>\<close>

lemma signed_labels_nth:
  "i < length labels \<Longrightarrow>
     signed_labels_of labels ! i = (if labels ! i > 0 then 1 else - 1)"
  by (simp add: signed_labels_of_def astype_float_def)

lemma length_signed_labels [simp]: "length (signed_labels_of labels) = length labels"
  by (simp add: signed_labels_of_def)

lemma map2_as_index:
  "length xs = length ys \<Longrightarrow>
     map2 f xs ys = map (\<lambda>i. f (xs ! i) (ys ! i)) [0..<length xs]"
  by (rule nth_equalityI) simp_all

lemma filter_map2_count:
  "length xs = length ys \<Longrightarrow>
     length (filter P (map2 f xs ys)) =
     length (filter (\<lambda>i. P (f (xs ! i) (ys ! i))) [0..<length xs])"
  by (simp only: map2_as_index filter_map length_map comp_def)

lemma error_rate_same_length:
  assumes "length labels = length predictions"
  shows "error_rate predictions labels =
     py_float_div
       (real (length (filter (\<lambda>i. signed_labels_of labels ! i * predictions ! i \<le> 0)
                        [0..<length predictions])))
       (real (length predictions))"
  using assms
    filter_map2_count [of "signed_labels_of labels" predictions "\<lambda>z. z \<le> 0" "(*)"]
  by (simp add: error_rate_def np_multiply_def)

lemma py_bind_Inr_iff:
  "py_bind r f = Inr y \<longleftrightarrow> (\<exists>x. r = Inr x \<and> f x = Inr y)"
  by (cases r) (simp_all add: py_bind_def)

lemma error_rate_count:
  assumes "length labels = length predictions" and "predictions \<noteq> []"
    and "\<And>i. i < length predictions \<Longrightarrow>
           ((if labels ! i > 0 then 1 else - 1) * predictions ! i \<le> 0) = Q i"
  shows "error_rate predictions labels =
     Inr (real (length (filter Q [0..<length predictions])) / real (length predictions))"
proof -
  have "filter (\<lambda>i. signed_labels_of labels ! i * predictions ! i \<le> 0)
          [0..<length predictions] =
        filter Q [0..<length predictions]"
    using assms(1,3) by (intro filter_cong refl) (simp add: signed_labels_nth)
  then show ?thesis
    using assms(1,2) error_rate_same_length [of labels predictions]
    by (simp add: py_float_div_def)
qed

text \<open>
  C1. For a prediction column of \<open>n \<ge> 1\<close> rows and a label column of \<open>n\<close> rows,
  \<open>error_rate\<close> returns the number of rows \<open>i\<close> with
  \<open>signed_labels[i] * predictions[i] \<le> 0\<close> divided by \<open>n\<close>, where \<open>signed_labels[i]\<close>
  is \<open>+1\<close> when \<open>labels[i] > 0\<close> and \<open>-1\<close> when \<open>labels[i] \<le> 0\<close>.
\<close>

theorem error_rate_misclassified_fraction:
  assumes "length predictions = n" and "length labels = n" and "1 \<le> n"
  shows "error_rate predictions labels =
     Inr (real (length (filter
            (\<lambda>i. (if labels ! i > 0 then 1 else - 1) * predictions ! i \<le> 0) [0..<n]))
          / real n)"
proof -
  have "filter (\<lambda>i. signed_labels_of labels ! i * predictions ! i \<le> 0) [0..<n] =
        filter (\<lambda>i. (if labels ! i > 0 then 1 else - 1) * predictions ! i \<le> 0) [0..<n]"
    using assms(2) by (intro filter_cong refl) (simp add: signed_labels_nth)
  then show ?thesis
    using assms error_rate_same_length [of labels predictions]
    by (simp add: py_float_div_def)
qed

theorem error_rate_misclassified_fraction_witness:
  "error_rate [1 / 2, - 2, 0] [1, 0, 1] = Inr (1 / 3)"
  using error_rate_misclassified_fraction [of "[1 / 2, - 2, 0]" 3 "[1, 0, 1]"]
  by (simp add: upt_rec)

text \<open>
  C9. \<open>error_rate\<close> divides the count by \<open>predictions.shape[0]\<close> without a guard. For
  a non-empty prediction column (and labels of the same length) the division is defined
  and a value is returned; for an empty prediction column the function raises
  \<open>ZeroDivisionError\<close>, and whatever the labels are it returns no value.
\<close>

theorem error_rate_division_by_row_count:
  "(predictions \<noteq> [] \<and> length labels = length predictions \<longrightarrow>
      (\<exists>r. error_rate predictions labels = Inr r)) \<and>
   (predictions = [] \<and> length labels = length predictions \<longrightarrow>
      error_rate predictions labels = Inl ZeroDivisionError) \<and>
   (predictions = [] \<longrightarrow> (\<forall>r. error_rate predictions labels \<noteq> Inr r))"
  by (auto simp: error_rate_def np_multiply_def py_float_div_def signed_labels_of_def
      Let_def split: sum.splits)

theorem error_rate_division_by_row_count_witness:
  "error_rate [] [] = Inl ZeroDivisionError \<and>
   error_rate [1] [1] = Inr 0 \<and>
   error_rate [] [1, 1] = Inl ValueError"
  using error_rate_division_by_row_count [of "[]" "[]"]
    error_rate_division_by_row_count [of "[1]" "[1]"]
  by (simp add: error_rate_def np_multiply_def py_float_div_def signed_labels_of_def
      astype_float_def)

text \<open>
  C3. For a dataframe with \<open>predictions\<close>, \<open>label\<close> and \<open>churn_label\<close> columns, the
  second component returned by \<open>_get_error_rate_and_constraints\<close> is
  \<open>error_rate\<close> of the predictions against the \<open>churn_label\<close> column minus
  \<open>max_churn_rate\<close>: the function returns \<open>(e, v)\<close> exactly when the two calls of
  \<open>error_rate\<close> return \<open>e\<close> and some \<open>r\<close> with \<open>v = r - max_churn_rate\<close>, and it does
  return when the frame has at least one row.
\<close>

theorem constraint_violation_is_churn_minus_max:
  assumes "getitem df ''predictions'' = Inr predictions"
    and "getitem df LABEL_COLUMN = Inr labels"
    and "getitem df CHURN_COLUMN = Inr churn_labels"
  shows "(get_error_rate_and_constraints df max_churn = Inr (e, v) \<longleftrightarrow>
            error_rate predictions labels = Inr e \<and>
            (\<exists>r. error_rate predictions churn_labels = Inr r \<and> v = r - max_churn)) \<and>
         (predictions \<noteq> [] \<and> length labels = length predictions \<and>
            length churn_labels = length predictions \<longrightarrow>
            (\<exists>e r. get_error_rate_and_constraints df max_churn = Inr (e, r - max_churn)
               \<and> error_rate predictions churn_labels = Inr r))"
proof -
  have run: "get_error_rate_and_constraints df max_churn =
      py_bind (error_rate predictions labels) (\<lambda>error_rate_local.
      py_bind (error_rate predictions churn_labels) (\<lambda>error_rate_churn.
      Inr (error_rate_local, error_rate_churn - max_churn)))"
    using assms by (simp add: get_error_rate_and_constraints_def py_bind_def)
  have iff: "get_error_rate_and_constraints df max_churn = Inr (e, v) \<longleftrightarrow>
            error_rate predictions labels = Inr e \<and>
            (\<exists>r. error_rate predictions churn_labels = Inr r \<and> v = r - max_churn)"
    unfolding run by (auto simp: py_bind_Inr_iff)
  have total: "\<exists>e r. get_error_rate_and_constraints df max_churn = Inr (e, r - max_churn)
               \<and> error_rate predictions churn_labels = Inr r"
    if "predictions \<noteq> []" "length labels = length predictions"
       "length churn_labels = length predictions"
  proof -
    from that obtain e where e: "error_rate predictions labels = Inr e"
      using error_rate_same_length [of labels predictions]
      by (auto simp: py_float_div_def)
    from that obtain r where r: "error_rate predictions churn_labels = Inr r"
      using error_rate_same_length [of churn_labels predictions]
      by (auto simp: py_float_div_def)
    show ?thesis unfolding run using e r by (auto simp: py_bind_def)
  qed
  show ?thesis using iff total by blast
qed

theorem constraint_violation_is_churn_minus_max_witness:
  "get_error_rate_and_constraints
     \<lparr>shape0 = 2, columns = [(''label'', [1, 0]), (''churn_label'', [1, 1]),
        (''predictions'', [3, - 1])]\<rparr> (1 / 4) = Inr (0, 1 / 4) \<and>
   error_rate [3, - 1] [1, 1] = Inr (1 / 2)"
proof -
  let ?df = "\<lparr>shape0 = 2, columns = [(''label'', [1, 0]), (''churn_label'', [1, 1]),
        (''predictions'', [3, - 1 :: real])]\<rparr>"
  have p: "getitem ?df ''predictions'' = Inr [3, - 1]"
    and l: "getitem ?df LABEL_COLUMN = Inr [1, 0]"
    and c: "getitem ?df CHURN_COLUMN = Inr [1, 1]"
    by (simp_all add: getitem_def LABEL_COLUMN_def CHURN_COLUMN_def)
  have el: "error_rate [3, - 1] [1, 0] = Inr 0"
    and ec: "error_rate [3, - 1] [1, 1] = Inr (1 / 2)"
    by (simp_all add: error_rate_def np_multiply_def py_float_div_def signed_labels_of_def
        astype_float_def)
  have rhs: "error_rate [3, - 1] [1, 0] = Inr 0 \<and>
      (\<exists>r. error_rate [3, - 1] [1, 1] = Inr r \<and> 1 / 4 = r - 1 / 4)"
    using el ec by (intro conjI exI [of _ "1 / 2"]) simp_all
  from constraint_violation_is_churn_minus_max [OF p l c, of "1 / 4" 0 "1 / 4"] rhs ec
  show ?thesis by blast
qed

text \<open>
  C2, as stated, fails: with a baseline score \<open>-1\<close> and a new score \<open>0\<close> on the one row
  of a frame, both predicted labels are negative, so no label flips and the spec's churn
  is \<open>0\<close>, while the churn metric of the code is \<open>1\<close>.
\<close>

theorem churn_metric_counterexample:
  "get_error_rate_and_constraints
     \<lparr>shape0 = 1, columns = [(''label'', [0]), (''churn_label'', [- 1]),
        (''predictions'', [0])]\<rparr> 0 = Inr (1, 1) \<and>
   error_rate [0] [- 1] = Inr 1 \<and>
   spec_churn [- 1] [0] = 0"
  by (simp add: get_error_rate_and_constraints_def py_bind_def getitem_def LABEL_COLUMN_def
      CHURN_COLUMN_def error_rate_def np_multiply_def py_float_div_def signed_labels_of_def
      astype_float_def spec_churn_def predicted_positive_def)

text \<open>
  C2, amended. When the \<open>churn_label\<close> column holds the baseline scores, the churn
  metric of \<open>_get_error_rate_and_constraints\<close> is the fraction of rows whose predicted
  label flips or whose new score is exactly \<open>0\<close> while the baseline score is \<open>\<le> 0\<close>
  (the margin test \<open>\<le> 0\<close> of \<open>error_rate\<close> counts a zero score as an error against
  either sign). It is the spec's churn whenever no new score is exactly \<open>0\<close>.
\<close>

theorem churn_metric_flip_or_zero_score:
  assumes "getitem df ''predictions'' = Inr new_scores"
    and "getitem df LABEL_COLUMN = Inr labels"
    and "getitem df CHURN_COLUMN = Inr old_scores"
    and "length new_scores = n" and "length old_scores = n" and "length labels = n"
    and "1 \<le> n"
  shows "error_rate new_scores old_scores =
           Inr (real (length (filter
                  (\<lambda>i. predicted_positive (old_scores ! i) \<noteq> predicted_positive (new_scores ! i)
                      \<or> (old_scores ! i \<le> 0 \<and> new_scores ! i = 0)) [0..<n])) / real n) \<and>
         (\<exists>e. get_error_rate_and_constraints df max_churn =
           Inr (e, real (length (filter
                  (\<lambda>i. predicted_positive (old_scores ! i) \<noteq> predicted_positive (new_scores ! i)
                      \<or> (old_scores ! i \<le> 0 \<and> new_scores ! i = 0)) [0..<n])) / real n
                   - max_churn)) \<and>
         (list_all (\<lambda>x. x \<noteq> 0) new_scores \<longrightarrow>
            error_rate new_scores old_scores = Inr (spec_churn old_scores new_scores))"
proof -
  let ?Q = "\<lambda>i. predicted_positive (old_scores ! i) \<noteq> predicted_positive (new_scores ! i)
                      \<or> (old_scores ! i \<le> 0 \<and> new_scores ! i = 0)"
  have ne: "new_scores \<noteq> []" using assms(4,7) by auto
  have pointwise: "((if old_scores ! i > 0 then 1 else - 1) * new_scores ! i \<le> 0) = ?Q i"
    for i
    by (auto simp: predicted_positive_def)
  have churn: "error_rate new_scores old_scores =
      Inr (real (length (filter ?Q [0..<n])) / real n)"
    using error_rate_count [of old_scores new_scores ?Q, OF _ ne pointwise] assms(4,5)
    by simp
  obtain e where e: "error_rate new_scores labels = Inr e"
    using error_rate_same_length [of labels new_scores] assms(4,6) ne
    by (auto simp: py_float_div_def)
  have df: "get_error_rate_and_constraints df max_churn =
      Inr (e, real (length (filter ?Q [0..<n])) / real n - max_churn)"
    using assms(1-3) e churn
    by (simp add: get_error_rate_and_constraints_def py_bind_def)
  have spec: "error_rate new_scores old_scores = Inr (spec_churn old_scores new_scores)"
    if "list_all (\<lambda>x. x \<noteq> 0) new_scores"
  proof -
    have "filter ?Q [0..<n] =
       filter (\<lambda>i. predicted_positive (old_scores ! i) \<noteq> predicted_positive (new_scores ! i))
         [0..<n]"
      using that assms(4) by (intro filter_cong refl) (auto simp: list_all_length)
    then show ?thesis using churn assms(4) by (simp add: spec_churn_def)
  qed
  show ?thesis using churn df spec by blast
qed

theorem churn_metric_flip_or_zero_score_witness:
  "error_rate [2, 0, - 1] [1, - 3, - 1] = Inr (1 / 3) \<and>
   get_error_rate_and_constraints
     \<lparr>shape0 = 3, columns = [(''label'', [1, 0, 0]), (''churn_label'', [1, - 3, - 1]),
        (''predictions'', [2, 0, - 1])]\<rparr> (1 / 3) = Inr (1 / 3, 0) \<and>
   error_rate [2, 5, - 1] [1, - 3, - 1] = Inr (spec_churn [1, - 3, - 1] [2, 5, - 1])"
proof -
  let ?df = "\<lparr>shape0 = 3, columns = [(''label'', [1, 0, 0]), (''churn_label'', [1, - 3, - 1]),
        (''predictions'', [2, 0, - 1 :: real])]\<rparr>"
  let ?df' = "\<lparr>shape0 = 3, columns = [(''label'', [1, 0, 0]), (''churn_label'', [1, - 3, - 1]),
        (''predictions'', [2, 5, - 1 :: real])]\<rparr>"
  have p: "getitem ?df ''predictions'' = Inr [2, 0, - 1]"
    and l: "getitem ?df LABEL_COLUMN = Inr [1, 0, 0]"
    and c: "getitem ?df CHURN_COLUMN = Inr [1, - 3, - 1]"
    and p': "getitem ?df' ''predictions'' = Inr [2, 5, - 1]"
    and l': "getitem ?df' LABEL_COLUMN = Inr [1, 0, 0]"
    and c': "getitem ?df' CHURN_COLUMN = Inr [1, - 3, - 1]"
    by (simp_all add: getitem_def LABEL_COLUMN_def CHURN_COLUMN_def)
  have el: "error_rate [2, 0, - 1] [1, 0, 0] = Inr (1 / 3)"
    by (simp add: error_rate_def np_multiply_def py_float_div_def signed_labels_of_def
        astype_float_def)
  from churn_metric_flip_or_zero_score [OF p l c, of 3 "1 / 3"]
  have churn: "error_rate [2, 0, - 1] [1, - 3, - 1] = Inr (1 / 3)"
    and "\<exists>e. get_error_rate_and_constraints ?df (1 / 3) = Inr (e, 0)"
    by (simp_all add: upt_rec predicted_positive_def)
  then have both: "get_error_rate_and_constraints ?df (1 / 3) = Inr (1 / 3, 0)"
    using p l c el by (auto simp: get_error_rate_and_constraints_def py_bind_def)
  from churn_metric_flip_or_zero_score [OF p' l' c', of 3 0, THEN conjunct2, THEN conjunct2]
  have flips: "error_rate [2, 5, - 1] [1, - 3, - 1] = Inr (spec_churn [1, - 3, - 1] [2, 5, - 1])"
    by simp
  show ?thesis using churn both flips by simp
qed

text \<open>
  C7. \<open>_construct_model\<close> builds a network with 0 or 1 hidden layers from its two
  dense-layer calls: for a non-zero \<open>hidden_units\<close> the output is a linear dense layer
  of one unit on a dense layer of \<open>hidden_units\<close> ReLU units on the input; for
  \<open>hidden_units = None\<close> it is the linear dense layer of one unit on the input.
\<close>

theorem construct_model_layers:
  "(hidden_units = Some k \<and> k \<noteq> 0 \<longrightarrow>
      construct_model input_tensor hidden_units =
        Dense (Dense input_tensor k (Some Relu)) 1 None) \<and>
   (hidden_units = None \<longrightarrow>
      construct_model input_tensor hidden_units = Dense input_tensor 1 None) \<and>
   dense_layers (construct_model input_tensor hidden_units) - dense_layers input_tensor
     \<in> {1, 2}"
  by (auto simp: construct_model_def py_truthy_def)

theorem construct_model_layers_witness:
  "construct_model (Placeholder ''features_placeholder'') (Some 10) =
     Dense (Dense (Placeholder ''features_placeholder'') 10 (Some Relu)) 1 None \<and>
   construct_model (Placeholder ''features_placeholder'') None =
     Dense (Placeholder ''features_placeholder'') 1 None"
  using construct_model_layers [of "Some 10" 10 "Placeholder ''features_placeholder''"]
    construct_model_layers [of None 0 "Placeholder ''features_placeholder''"]
  by simp

text \<open>
  C4. For every learning rate and either value of \<open>train_with_churn\<close>,
  \<open>Model.build_train_op\<close> builds the minimization problem whose objective is the error
  rate over the labels context and whose constraint list is the single constraint
  \<open>error rate over the churn context <= max_churn_rate\<close> when \<open>train_with_churn\<close> is
  true and is empty when it is false; the operation that minimizes it with the
  Lagrangian optimizer over Adam is stored in \<open>self.train_op\<close> and returned.
\<close>

theorem build_train_op_problem:
  "objective_of (problem_of (fst (build_train_op self learning_rate train_with_churn))) =
     Tfco_error_rate (Rate_context (predictions_tensor self) (labels_placeholder self)) \<and>
   constraints_of (problem_of (fst (build_train_op self learning_rate train_with_churn))) =
     (if train_with_churn
      then [Upper_bound
              (Tfco_error_rate (Rate_context (predictions_tensor self) (churn_placeholder self)))
              (max_churn_rate self)]
      else []) \<and>
   optimizer_of (fst (build_train_op self learning_rate train_with_churn)) =
     LagrangianOptimizerV1 (AdamOptimizer learning_rate) \<and>
   train_op (snd (build_train_op self learning_rate train_with_churn)) =
     Some (fst (build_train_op self learning_rate train_with_churn))"
  by (simp add: build_train_op_def Let_def)

text \<open>The linear model of the notebook, trained with the churn constraint at 2.5%.\<close>

lemma build_train_op_example:
  "fst (build_train_op (Model_init None (1 / 40)) (1 / 100) True) =
     Minimize (LagrangianOptimizerV1 (AdamOptimizer (1 / 100)))
       (RateMinimizationProblem
          (Tfco_error_rate (Rate_context
             (Dense (Placeholder ''features_placeholder'') 1 None)
             (Placeholder ''labels_placeholder'')))
          [Upper_bound
             (Tfco_error_rate (Rate_context
                (Dense (Placeholder ''features_placeholder'') 1 None)
                (Placeholder ''churn_placeholder'')))
             (1 / 40)])"
  by (simp add: build_train_op_def Model_init_def construct_model_def py_truthy_def Let_def)

section \<open>The frame of \<open>training_helper\<close>\<close>

lemma filter_update_other:
  "filter (\<lambda>col. fst col \<noteq> k) (AList.update k v al) = filter (\<lambda>col. fst col \<noteq> k) al"
  by (induction al) auto

lemma setitem_frame:
  assumes "setitem df ''predictions'' xs = Inr df'"
  shows "other_columns df' = other_columns df" and "shape0 df' = shape0 df"
    and "getitem df' ''predictions'' = Inr xs"
  using assms
  by (auto simp: setitem_def other_columns_def filter_update_other getitem_def update_conv'
      split: if_splits)

lemma setitem_succeeds:
  "length xs = shape0 df \<Longrightarrow> \<exists>df'. setitem df c xs = Inr df'"
  by (simp add: setitem_def)

lemma training_step_frame:
  assumes "training_step max_churn yielded st = (st', err)"
  shows "other_columns (train_df st') = other_columns (train_df st) \<and>
         other_columns (test_df st') = other_columns (test_df st) \<and>
         shape0 (train_df st') = shape0 (train_df st) \<and>
         shape0 (test_df st') = shape0 (test_df st)"
  using assms
  by (auto simp: training_step_def Let_def split: prod.splits sum.splits
      dest: setitem_frame(1) setitem_frame(2))

lemma training_step_writes:
  assumes "training_step max_churn (train, test) st = (st', err)"
    and "length train = shape0 (train_df st)" and "length test = shape0 (test_df st)"
  shows "getitem (train_df st') ''predictions'' = Inr train \<and>
         getitem (test_df st') ''predictions'' = Inr test"
  using assms setitem_succeeds [of train "train_df st" "''predictions''"]
    setitem_succeeds [of test "test_df st" "''predictions''"]
  by (auto simp: training_step_def Let_def split: prod.splits sum.splits
      dest: setitem_frame(3))

lemma training_step_no_error_writes:
  assumes "training_step max_churn (train, test) st = (st', None)"
  shows "getitem (train_df st') ''predictions'' = Inr train \<and>
         getitem (test_df st') ''predictions'' = Inr test"
  using assms
  by (auto simp: training_step_def Let_def split: prod.splits sum.splits
      dest: setitem_frame(3))

lemma training_loop_frame:
  "training_loop max_churn yields st = (st', err) \<Longrightarrow>
   other_columns (train_df st') = other_columns (train_df st) \<and>
   other_columns (test_df st') = other_columns (test_df st) \<and>
   shape0 (train_df st') = shape0 (train_df st) \<and>
   shape0 (test_df st') = shape0 (test_df st)"
proof (induction yields arbitrary: st)
  case Nil
  then show ?case by simp
next
  case (Cons yielded yields)
  obtain st1 err1 where step: "training_step max_churn yielded st = (st1, err1)"
    by (cases "training_step max_churn yielded st")
  note frame1 = training_step_frame [OF step]
  show ?case
  proof (cases err1)
    case None
    with Cons.prems step have "training_loop max_churn yields st1 = (st', err)" by simp
    from Cons.IH [OF this] frame1 show ?thesis by simp
  next
    case (Some e)
    with Cons.prems step have "st' = st1" by simp
    with frame1 show ?thesis by simp
  qed
qed

lemma training_loop_last:
  "training_loop max_churn yields st = (st', None) \<Longrightarrow> yields \<noteq> [] \<Longrightarrow>
   getitem (train_df st') ''predictions'' = Inr (fst (last yields)) \<and>
   getitem (test_df st') ''predictions'' = Inr (snd (last yields))"
proof (induction yields arbitrary: st)
  case Nil
  then show ?case by simp
next
  case (Cons yielded yields)
  obtain st1 err1 where step: "training_step max_churn yielded st = (st1, err1)"
    by (cases "training_step max_churn yielded st")
  have none: "err1 = None" and rest: "training_loop max_churn yields st1 = (st', None)"
    using Cons.prems(1) step by (auto split: option.splits)
  show ?case
  proof (cases "yields = []")
    case True
    with rest have "st' = st1" by simp
    with training_step_no_error_writes [of max_churn "fst yielded" "snd yielded" st st1]
      step none True
    show ?thesis by simp
  next
    case False
    with Cons.IH [OF rest] show ?thesis by simp
  qed
qed


text \<open>
  C8. \<open>training_helper\<close> changes the caller's two dataframes in place: every loop
  iteration writes the predictions it received into the \<open>predictions\<close> column of
  \<open>train_df\<close> and of \<open>test_df\<close>, and every other column of the two frames (and their
  number of rows) is left as it was, whether the helper returns or raises.
\<close>

theorem training_helper_writes_predictions_only:
  assumes "training_helper max_churn train_df0 test_df0 yields = (st', err)"
  shows "other_columns (train_df st') = other_columns train_df0 \<and>
         other_columns (test_df st') = other_columns test_df0 \<and>
         shape0 (train_df st') = shape0 train_df0 \<and>
         shape0 (test_df st') = shape0 test_df0 \<and>
         (\<forall>k < length yields.
            snd (training_helper max_churn train_df0 test_df0 (take (Suc k) yields)) = None \<longrightarrow>
            getitem (train_df (fst (training_helper max_churn train_df0 test_df0
                       (take (Suc k) yields)))) ''predictions'' = Inr (fst (yields ! k)) \<and>
            getitem (test_df (fst (training_helper max_churn train_df0 test_df0
                       (take (Suc k) yields)))) ''predictions'' = Inr (snd (yields ! k))) \<and>
         (\<forall>train test st st1 e.
            training_step max_churn (train, test) st = (st1, e) \<and>
            length train = shape0 (train_df st) \<and> length test = shape0 (test_df st) \<longrightarrow>
            getitem (train_df st1) ''predictions'' = Inr train \<and>
            getitem (test_df st1) ''predictions'' = Inr test)"
proof -
  have frame: "other_columns (train_df st') = other_columns train_df0 \<and>
         other_columns (test_df st') = other_columns test_df0 \<and>
         shape0 (train_df st') = shape0 train_df0 \<and>
         shape0 (test_df st') = shape0 test_df0"
    using training_loop_frame [OF assms [unfolded training_helper_def]] by simp
  have prefix: "getitem (train_df (fst (training_helper max_churn train_df0 test_df0
                       (take (Suc k) yields)))) ''predictions'' = Inr (fst (yields ! k)) \<and>
            getitem (test_df (fst (training_helper max_churn train_df0 test_df0
                       (take (Suc k) yields)))) ''predictions'' = Inr (snd (yields ! k))"
    if k: "k < length yields"
      and ok: "snd (training_helper max_churn train_df0 test_df0 (take (Suc k) yields)) = None"
    for k
  proof -
    obtain st1 where run:
      "training_helper max_churn train_df0 test_df0 (take (Suc k) yields) = (st1, None)"
      using ok
      by (cases "training_helper max_churn train_df0 test_df0 (take (Suc k) yields)") simp
    have ne: "take (Suc k) yields \<noteq> []" using k by auto
    have last: "last (take (Suc k) yields) = yields ! k"
      using k by (simp add: take_Suc_conv_app_nth)
    from training_loop_last [OF run [unfolded training_helper_def] ne] run last
    show ?thesis by simp
  qed
  have step: "getitem (train_df st1) ''predictions'' = Inr train \<and>
            getitem (test_df st1) ''predictions'' = Inr test"
    if "training_step max_churn (train, test) st = (st1, e)"
      and "length train = shape0 (train_df st)" and "length test = shape0 (test_df st)"
    for train test st st1 e
    using training_step_writes [OF that] .
  show ?thesis using frame prefix step by blast
qed

theorem training_helper_writes_predictions_only_witness:
  "other_columns (train_df (fst (training_helper (1 / 4)
      \<lparr>shape0 = 2, columns = [(''label'', [1, 0]), (''churn_label'', [1, 1])]\<rparr>
      \<lparr>shape0 = 1, columns = [(''predictions'', [7]), (''label'', [0]), (''churn_label'', [1])]\<rparr>
      [([3, - 1], [2]), ([1, 1], [- 1])]))) =
     [(''label'', [1, 0]), (''churn_label'', [1, 1])] \<and>
   other_columns (test_df (fst (training_helper (1 / 4)
      \<lparr>shape0 = 2, columns = [(''label'', [1, 0]), (''churn_label'', [1, 1])]\<rparr>
      \<lparr>shape0 = 1, columns = [(''predictions'', [7]), (''label'', [0]), (''churn_label'', [1])]\<rparr>
      [([3, - 1], [2]), ([1, 1], [- 1])]))) =
     [(''label'', [0]), (''churn_label'', [1])] \<and>
   getitem (train_df (fst (training_helper (1 / 4)
      \<lparr>shape0 = 2, columns = [(''label'', [1, 0]), (''churn_label'', [1, 1])]\<rparr>
      \<lparr>shape0 = 1, columns = [(''predictions'', [7]), (''label'', [0]), (''churn_label'', [1])]\<rparr>
      [([3, - 1], [2]), ([1, 1], [- 1])]))) ''predictions'' = Inr [1, 1] \<and>
   getitem (test_df (fst (training_helper (1 / 4)
      \<lparr>shape0 = 2, columns = [(''label'', [1, 0]), (''churn_label'', [1, 1])]\<rparr>
      \<lparr>shape0 = 1, columns = [(''predictions'', [7]), (''label'', [0]), (''churn_label'', [1])]\<rparr>
      [([3, - 1], [2]), ([1, 1], [- 1])]))) ''predictions'' = Inr [- 1]"
proof -
  let ?tr = "\<lparr>shape0 = 2, columns = [(''label'', [1, 0 :: real]), (''churn_label'', [1, 1])]\<rparr>"
  let ?te = "\<lparr>shape0 = 1, columns = [(''predictions'', [7 :: real]), (''label'', [0]),
                (''churn_label'', [1])]\<rparr>"
  let ?ys = "[([3, - 1 :: real], [2 :: real]), ([1, 1], [- 1])]"
  let ?run = "training_helper (1 / 4) ?tr ?te ?ys"
  have ok: "snd ?run = None"
    by (simp add: training_helper_def training_step_def setitem_def
        get_error_rate_and_constraints_def py_bind_def getitem_def LABEL_COLUMN_def
        CHURN_COLUMN_def error_rate_def np_multiply_def py_float_div_def signed_labels_of_def
        astype_float_def)
  have "training_helper (1 / 4) ?tr ?te ?ys = (fst ?run, snd ?run)" by simp
  note facts = training_helper_writes_predictions_only [OF this]
  have frame:
    "other_columns (train_df (fst ?run)) = other_columns ?tr"
    "other_columns (test_df (fst ?run)) = other_columns ?te"
    using facts by blast+
  from facts have "\<forall>k < length ?ys.
      snd (training_helper (1 / 4) ?tr ?te (take (Suc k) ?ys)) = None \<longrightarrow>
      getitem (train_df (fst (training_helper (1 / 4) ?tr ?te (take (Suc k) ?ys))))
        ''predictions'' = Inr (fst (?ys ! k)) \<and>
      getitem (test_df (fst (training_helper (1 / 4) ?tr ?te (take (Suc k) ?ys))))
        ''predictions'' = Inr (snd (?ys ! k))"
    by blast
  from this [rule_format, of 1] ok
  have written: "getitem (train_df (fst ?run)) ''predictions'' = Inr [1, 1]"
    "getitem (test_df (fst ?run)) ''predictions'' = Inr [- 1]"
    by simp_all
  show ?thesis using frame written by (simp add: other_columns_def)
qed

section \<open>The minibatch sampler\<close>

lemma py_range_as_map: "py_range a b = map (\<lambda>j. a + int j) [0..<nat (b - a)]"
  unfolding py_range_def
  by (rule nth_equalityI) (simp_all add: nth_upto)

lemma length_py_range [simp]: "length (py_range a b) = nat (b - a)"
  by (simp add: py_range_as_map)

lemma gather_while_done:
  "\<not> int (length (minibatch_indices st)) < m \<Longrightarrow> gather_while m N st = Some st"
  by (subst gather_while.simps) simp

lemma gather_while_step:
  "int (length (minibatch_indices st)) < m \<Longrightarrow>
     gather_while m N st = gather_while m N (gather_step m N st)"
  by (subst gather_while.simps) simp

lemma gather_step_fresh_wrap:
  "N \<le> s + m \<Longrightarrow>
     gather_step m N \<lparr>minibatch_indices = [], minibatch_start_index = s\<rparr> =
       \<lparr>minibatch_indices = py_range s N, minibatch_start_index = 0\<rparr>"
  by (simp add: gather_step_def Let_def)

lemma gather_step_fresh_inside:
  "s + m < N \<Longrightarrow>
     gather_step m N \<lparr>minibatch_indices = [], minibatch_start_index = s\<rparr> =
       \<lparr>minibatch_indices = py_range s (s + m), minibatch_start_index = s + m\<rparr>"
  by (simp add: gather_step_def Let_def)

lemma gather_step_rest:
  "0 \<le> s \<Longrightarrow> s < N \<Longrightarrow> m \<le> N \<Longrightarrow> N < s + m \<Longrightarrow>
     gather_step m N \<lparr>minibatch_indices = py_range s N, minibatch_start_index = 0\<rparr> =
       \<lparr>minibatch_indices = py_range s N @ py_range 0 (s + m - N),
        minibatch_start_index = s + m - N\<rparr>"
  by (simp add: gather_step_def Let_def algebra_simps)

lemma cyclic_inside:
  assumes "0 \<le> s" "s + m \<le> N"
  shows "map (\<lambda>j. (s + int j) mod N) [0..<nat m] = py_range s (s + m)"
proof (rule nth_equalityI)
  show "length (map (\<lambda>j. (s + int j) mod N) [0..<nat m]) = length (py_range s (s + m))"
    by simp
next
  fix i assume "i < length (map (\<lambda>j. (s + int j) mod N) [0..<nat m])"
  then have i: "i < nat m" by simp
  then have "0 \<le> s + int i" "s + int i < N" using assms by linarith+
  then have "(s + int i) mod N = s + int i" by (rule mod_pos_pos_trivial)
  then show "map (\<lambda>j. (s + int j) mod N) [0..<nat m] ! i = py_range s (s + m) ! i"
    using i by (simp add: py_range_as_map)
qed

lemma cyclic_wrapped:
  assumes "0 \<le> s" "s < N" "m \<le> N" "N < s + m"
  shows "map (\<lambda>j. (s + int j) mod N) [0..<nat m] = py_range s N @ py_range 0 (s + m - N)"
proof (rule nth_equalityI)
  have "nat m = nat (N - s) + nat (s + m - N)" using assms by linarith
  then show "length (map (\<lambda>j. (s + int j) mod N) [0..<nat m]) =
        length (py_range s N @ py_range 0 (s + m - N))"
    by simp
next
  fix i assume "i < length (map (\<lambda>j. (s + int j) mod N) [0..<nat m])"
  then have i: "i < nat m" by simp
  show "map (\<lambda>j. (s + int j) mod N) [0..<nat m] ! i =
        (py_range s N @ py_range 0 (s + m - N)) ! i"
  proof (cases "i < nat (N - s)")
    case True
    then have "0 \<le> s + int i" "s + int i < N" using assms by linarith+
    then have "(s + int i) mod N = s + int i" by (rule mod_pos_pos_trivial)
    then show ?thesis
      using i True by (simp add: nth_append py_range_as_map)
  next
    case False
    let ?k = "i - nat (N - s)"
    have k: "?k < nat (s + m - N)" using False i assms by linarith
    have eq: "s + int i = int ?k + N" using False assms by linarith
    have "0 \<le> int ?k" "int ?k < N" using k assms by linarith+
    then have "(int ?k + N) mod N = int ?k" by simp
    then have "(s + int i) mod N = int ?k" using eq by simp
    then show ?thesis
      using i False k by (simp add: nth_append py_range_as_map)
  qed
qed

lemma gather_while_fresh:
  assumes "0 \<le> s" "s < N" "0 \<le> m" "m \<le> N"
  shows "gather_while m N \<lparr>minibatch_indices = [], minibatch_start_index = s\<rparr> =
     Some \<lparr>minibatch_indices = map (\<lambda>j. (s + int j) mod N) [0..<nat m],
           minibatch_start_index = (s + m) mod N\<rparr>"
proof -
  let ?fresh = "\<lparr>minibatch_indices = [], minibatch_start_index = s\<rparr>"
  consider "m = 0" | "0 < m" "s + m < N" | "0 < m" "s + m = N" | "0 < m" "N < s + m"
    using assms by linarith
  then show ?thesis
  proof cases
    case 1
    have "s mod N = s" using assms by simp
    then show ?thesis using 1 by (simp add: gather_while_done)
  next
    case 2
    let ?st = "\<lparr>minibatch_indices = py_range s (s + m), minibatch_start_index = s + m\<rparr>"
    have "gather_while m N ?fresh = gather_while m N (gather_step m N ?fresh)"
      using 2 by (intro gather_while_step) simp
    also have "\<dots> = gather_while m N ?st"
      using 2 by (simp only: gather_step_fresh_inside)
    also have "\<dots> = Some ?st"
      by (intro gather_while_done) simp
    finally have run: "gather_while m N ?fresh = Some ?st" .
    have "(s + m) mod N = s + m" using 2 assms by simp
    then show ?thesis
      unfolding run using assms 2 cyclic_inside [of s m N] by simp
  next
    case 3
    let ?st = "\<lparr>minibatch_indices = py_range s N, minibatch_start_index = 0\<rparr>"
    have "gather_while m N ?fresh = gather_while m N (gather_step m N ?fresh)"
      using 3 by (intro gather_while_step) simp
    also have "\<dots> = gather_while m N ?st"
      using 3 by (simp only: gather_step_fresh_wrap)
    also have "\<dots> = Some ?st"
      using 3 by (intro gather_while_done) simp
    finally have run: "gather_while m N ?fresh = Some ?st" .
    have "(s + m) mod N = 0" using 3 by simp
    then show ?thesis
      unfolding run using assms 3 cyclic_inside [of s m N] by simp
  next
    case 4
    let ?st = "\<lparr>minibatch_indices = py_range s N, minibatch_start_index = 0\<rparr>"
    let ?st' = "\<lparr>minibatch_indices = py_range s N @ py_range 0 (s + m - N),
         minibatch_start_index = s + m - N\<rparr>"
    have "gather_while m N ?fresh = gather_while m N (gather_step m N ?fresh)"
      using 4 by (intro gather_while_step) simp
    also have "\<dots> = gather_while m N ?st"
      using 4 by (simp only: gather_step_fresh_wrap)
    also have "\<dots> = gather_while m N (gather_step m N ?st)"
      using 4 assms by (intro gather_while_step) simp
    also have "\<dots> = gather_while m N ?st'"
      using 4 assms by (simp only: gather_step_rest)
    also have "\<dots> = Some ?st'"
      using 4 assms by (intro gather_while_done) simp
    finally have run: "gather_while m N ?fresh = Some ?st'" .
    have "s + m = (s + m - N) + N" by simp
    moreover have "0 \<le> s + m - N" "s + m - N < N" using 4 assms by linarith+
    ultimately have "(s + m) mod N = s + m - N"
      by (metis mod_add_self2 mod_pos_pos_trivial)
    then show ?thesis
      unfolding run using assms 4 cyclic_wrapped [of s N m] by simp
  qed
qed

lemma gather_step_progress:
  assumes "0 \<le> minibatch_start_index st" "minibatch_start_index st < N"
    and "int (length (minibatch_indices st)) < m"
  shows "length (minibatch_indices st) < length (minibatch_indices (gather_step m N st)) \<and>
         int (length (minibatch_indices (gather_step m N st))) \<le> m \<and>
         0 \<le> minibatch_start_index (gather_step m N st) \<and>
         minibatch_start_index (gather_step m N st) < N"
  using assms by (auto simp: gather_step_def Let_def)

lemma select_rows_in_range:
  "list_all (\<lambda>i. 0 \<le> i \<and> i < int (length permutation)) iis \<Longrightarrow>
     select_rows permutation iis = Inr (map (\<lambda>i. permutation ! nat i) iis)"
  by (induction iis) (simp_all add: py_list_get_def)

lemma cyclic_positions_in_range:
  "0 < N \<Longrightarrow> list_all (\<lambda>i. 0 \<le> i \<and> i < N) (map (\<lambda>j. (s + int j) mod N) [0..<k])"
  by (simp add: list_all_iff)

lemma run_iterations_cyclic:
  assumes "N = int (length permutation)" "0 \<le> m" "m \<le> N"
  shows "0 \<le> s \<Longrightarrow> s < N \<Longrightarrow>
    run_iterations permutation m N k s =
      Returns (map (\<lambda>t. map (\<lambda>j. permutation ! nat ((s + int t * m + int j) mod N)) [0..<nat m])
                 [0..<k],
               (s + int k * m) mod N)"
proof (induction k arbitrary: s)
  case 0
  then show ?case by simp
next
  case (Suc k)
  have N: "0 < N" using Suc.prems by linarith
  have gather: "gather_while m N \<lparr>minibatch_indices = [], minibatch_start_index = s\<rparr> =
     Some \<lparr>minibatch_indices = map (\<lambda>j. (s + int j) mod N) [0..<nat m],
           minibatch_start_index = (s + m) mod N\<rparr>"
    using gather_while_fresh [OF Suc.prems assms(2,3)] .
  have rows: "select_rows permutation (map (\<lambda>j. (s + int j) mod N) [0..<nat m]) =
     Inr (map (\<lambda>j. permutation ! nat ((s + int j) mod N)) [0..<nat m])"
    using select_rows_in_range [OF cyclic_positions_in_range [OF N, of s "nat m", unfolded assms(1)]]
    by (simp add: assms(1) comp_def)
  have next_start: "0 \<le> (s + m) mod N" "(s + m) mod N < N" using N by simp_all
  have shift: "((s + m) mod N + int t * m + int j) mod N = (s + int (Suc t) * m + int j) mod N"
    for t j
  proof -
    have "((s + m) mod N + (int t * m + int j)) mod N = ((s + m) + (int t * m + int j)) mod N"
      by (rule mod_add_left_eq)
    then show ?thesis by (simp add: algebra_simps)
  qed
  have last: "((s + m) mod N + int k * m) mod N = (s + int (Suc k) * m) mod N"
    using shift [of k 0] by simp
  have split: "[0..<Suc k] = 0 # map Suc [0..<k]"
    by (simp add: upt_conv_Cons map_Suc_upt del: upt_Suc)
  show ?case
    unfolding run_iterations.simps gather split
    using rows Suc.IH [OF next_start]
    by (simp add: shift last comp_def del: upt_Suc)
qed

lemma run_loops_cyclic:
  assumes "N = int (length permutation)" "0 \<le> m" "m \<le> N"
  shows "0 \<le> s \<Longrightarrow> s < N \<Longrightarrow>
    run_loops permutation m N per_loop loops s =
      Returns (map (\<lambda>n. map (\<lambda>t. map (\<lambda>j. permutation !
                   nat ((s + int (n * per_loop + t) * m + int j) mod N)) [0..<nat m])
                 [0..<per_loop]) [0..<loops])"
proof (induction loops arbitrary: s)
  case 0
  then show ?case by simp
next
  case (Suc loops)
  have N: "0 < N" using Suc.prems by linarith
  let ?s' = "(s + int per_loop * m) mod N"
  have next_start: "0 \<le> ?s'" "?s' < N" using N by simp_all
  have shift: "(?s' + (int n * int per_loop + int t) * m + int j) mod N =
               (s + ((1 + int n) * int per_loop + int t) * m + int j) mod N" for n t j
  proof -
    have "(?s' + ((int n * int per_loop + int t) * m + int j)) mod N =
          ((s + int per_loop * m) + ((int n * int per_loop + int t) * m + int j)) mod N"
      by (rule mod_add_left_eq)
    then show ?thesis by (simp add: algebra_simps)
  qed
  have split: "[0..<Suc loops] = 0 # map Suc [0..<loops]"
    by (simp add: upt_conv_Cons map_Suc_upt del: upt_Suc)
  show ?case
    unfolding run_loops.simps split
    using run_iterations_cyclic [OF assms Suc.prems, of per_loop] Suc.IH [OF next_start]
    by (simp add: shift comp_def del: upt_Suc)
qed

lemma gather_while_returns_in_range:
  assumes "0 \<le> minibatch_start_index st" "minibatch_start_index st < N"
  shows "\<exists>st'. gather_while m N st = Some st' \<and>
           0 \<le> minibatch_start_index st' \<and> minibatch_start_index st' < N"
  using assms
proof (induction "nat (m - int (length (minibatch_indices st)))" arbitrary: st rule: less_induct)
  case less
  show ?case
  proof (cases "int (length (minibatch_indices st)) < m")
    case False
    then show ?thesis using less.prems by (simp add: gather_while_done)
  next
    case True
    note progress = gather_step_progress [OF less.prems True]
    have "nat (m - int (length (minibatch_indices (gather_step m N st)))) <
          nat (m - int (length (minibatch_indices st)))"
      using progress True by linarith
    from less.hyps [OF this] progress
    have "\<exists>st'. gather_while m N (gather_step m N st) = Some st' \<and>
           0 \<le> minibatch_start_index st' \<and> minibatch_start_index st' < N" by simp
    then show ?thesis using gather_while_step [OF True] by simp
  qed
qed

text \<open>
  The clamp is what keeps the loop from running forever on an empty dataset: with no
  rows and an unclamped size the body leaves the state as it is, while the generator,
  which clamps the size to \<open>0\<close>, does not enter the loop.
\<close>

lemma gather_step_empty_dataset:
  "gather_step 1 0 \<lparr>minibatch_indices = [], minibatch_start_index = 0\<rparr> =
     \<lparr>minibatch_indices = [], minibatch_start_index = 0\<rparr>"
  by (simp add: gather_step_def py_range_def)

lemma gather_while_unclamped_empty_dataset:
  "gather_while 1 0 \<lparr>minibatch_indices = [], minibatch_start_index = 0\<rparr> = None"
proof -
  let ?fresh = "\<lparr>minibatch_indices = [], minibatch_start_index = 0\<rparr>"
  have stuck: "\<not> (m = 1 \<and> N = 0 \<and> st = ?fresh)"
    if run: "gather_while m N st = Some y" for m N st y
  proof (rule gather_while.raw_induct
      [where P = "\<lambda>m N st y. \<not> (m = 1 \<and> N = 0 \<and> st = ?fresh)", OF _ run])
    fix f m N st y
    assume IH: "\<And>m N st y. f m N st = Some y \<Longrightarrow> \<not> (m = 1 \<and> N = 0 \<and> st = ?fresh)"
      and step: "(if int (length (minibatch_indices st)) < m
                  then f m N (gather_step m N st) else Some st) = Some y"
    show "\<not> (m = 1 \<and> N = 0 \<and> st = ?fresh)"
    proof
      assume "m = 1 \<and> N = 0 \<and> st = ?fresh"
      with step have "f 1 0 ?fresh = Some y"
        by (simp add: gather_step_empty_dataset)
      from IH [OF this] show False by simp
    qed
  qed
  show ?thesis
  proof (cases "gather_while 1 0 ?fresh")
    case None
    then show ?thesis .
  next
    case (Some y)
    from stuck [OF this] show ?thesis by simp
  qed
qed

lemma training_generator_empty_dataset:
  "training_generator [] 100 per_loop loops = Returns (replicate loops (replicate per_loop []))"
proof -
  have it: "run_iterations [] 0 0 k 0 = Returns (replicate k [], 0)" for k
    by (induction k) (simp_all add: gather_while_done)
  have "run_loops [] 0 0 per_loop n 0 = Returns (replicate n (replicate per_loop []))" for n
    by (induction n) (simp_all add: it)
  then show ?thesis by (simp add: training_generator_def)
qed

text \<open>
  C10. With the minibatch size clamped to \<open>min(minibatch_size, num_rows)\<close>, for
  \<open>num_rows \<ge> 1\<close> and a requested size \<open>\<ge> 1\<close>: from every state whose start index is
  a position of the dataset (the first one, \<open>0\<close>, and every one the loop leaves behind),
  an iteration of the inner \<open>while\<close> loop makes the index list strictly longer and
  leaves the start index a position of the dataset, and the loop terminates.
\<close>

theorem gather_loop_grows_and_terminates:
  assumes "1 \<le> num_rows" and "1 \<le> requested_size"
    and "minibatch_size = min requested_size num_rows"
    and "0 \<le> minibatch_start_index st" and "minibatch_start_index st < num_rows"
  shows "(int (length (minibatch_indices st)) < minibatch_size \<longrightarrow>
            length (minibatch_indices st) <
              length (minibatch_indices (gather_step minibatch_size num_rows st)) \<and>
            0 \<le> minibatch_start_index (gather_step minibatch_size num_rows st) \<and>
            minibatch_start_index (gather_step minibatch_size num_rows st) < num_rows) \<and>
         (\<exists>st'. gather_while minibatch_size num_rows st = Some st' \<and>
            0 \<le> minibatch_start_index st' \<and> minibatch_start_index st' < num_rows)"
  using gather_step_progress [OF assms(4,5), of minibatch_size]
    gather_while_returns_in_range [OF assms(4,5), of minibatch_size]
  by blast

theorem gather_loop_grows_and_terminates_witness:
  "length (minibatch_indices
     (gather_step 2 3 \<lparr>minibatch_indices = [], minibatch_start_index = 2\<rparr>)) = 1 \<and>
   gather_while 2 3 \<lparr>minibatch_indices = [], minibatch_start_index = 2\<rparr> =
     Some \<lparr>minibatch_indices = [2, 0], minibatch_start_index = 1\<rparr>"
proof -
  let ?st = "\<lparr>minibatch_indices = [], minibatch_start_index = 2\<rparr>"
  have step: "gather_step 2 3 ?st = \<lparr>minibatch_indices = [2], minibatch_start_index = 0\<rparr>"
    by (simp add: gather_step_def py_range_def upto_rec1)
  have step': "gather_step 2 3 \<lparr>minibatch_indices = [2], minibatch_start_index = 0\<rparr> =
      \<lparr>minibatch_indices = [2, 0], minibatch_start_index = 1\<rparr>"
    by (simp add: gather_step_def py_range_def upto_rec1)
  from gather_loop_grows_and_terminates [of 3 2 2 ?st]
  obtain st' where run: "gather_while 2 3 ?st = Some st'"
    and grows: "length (minibatch_indices ?st) < length (minibatch_indices (gather_step 2 3 ?st))"
    by auto
  have "gather_while 2 3 ?st = Some \<lparr>minibatch_indices = [2, 0], minibatch_start_index = 1\<rparr>"
    by (simp add: gather_while_step gather_while_done step step')
  with grows step show ?thesis by simp
qed

text \<open>
  C5. For a training frame of \<open>num_rows \<ge> 1\<close> rows and a requested minibatch size
  \<open>\<ge> 1\<close> the sampler is cyclic: the generator returns, and training iteration \<open>t\<close> of
  loop \<open>n\<close> (iteration \<open>n * num_iterations_per_loop + t\<close> overall) feeds exactly
  \<open>m = min(minibatch_size, num_rows)\<close> rows, those at the consecutive positions
  \<open>start, start + 1, \<dots>\<close> of the shuffled permutation taken modulo \<open>num_rows\<close>, where
  \<open>start\<close> advances by \<open>m\<close> with every iteration and wraps around to \<open>0\<close> at the end of
  the dataset.
\<close>

theorem training_generator_cyclic_minibatches:
  assumes "1 \<le> length permutation" and "1 \<le> requested_size"
    and "m = nat (min requested_size (int (length permutation)))"
  shows "training_generator permutation requested_size per_loop loops =
     Returns (map (\<lambda>n. map (\<lambda>t. map (\<lambda>j. permutation !
                   (((n * per_loop + t) * m + j) mod length permutation)) [0..<m])
                 [0..<per_loop]) [0..<loops]) \<and>
   (\<forall>start. 0 \<le> start \<and> start < int (length permutation) \<longrightarrow>
      gather_while (int m) (int (length permutation))
        \<lparr>minibatch_indices = [], minibatch_start_index = start\<rparr> =
      Some \<lparr>minibatch_indices =
              map (\<lambda>j. (start + int j) mod int (length permutation)) [0..<m],
            minibatch_start_index = (start + int m) mod int (length permutation)\<rparr>)"
proof -
  let ?N = "int (length permutation)"
  let ?m = "min requested_size ?N"
  have m: "0 \<le> ?m" "?m \<le> ?N" "int m = ?m" using assms by simp_all
  have position: "nat ((0 + int (n * per_loop + t) * ?m + int j) mod ?N) =
      ((n * per_loop + t) * m + j) mod length permutation" for n t j
  proof -
    have e: "int (n * per_loop + t) * ?m + int j = int ((n * per_loop + t) * m + j)"
      by (simp add: m(3) [symmetric])
    have "(0 + int (n * per_loop + t) * ?m + int j) mod ?N =
          int ((n * per_loop + t) * m + j) mod ?N"
      by (simp only: add_0 e)
    also have "\<dots> = int (((n * per_loop + t) * m + j) mod length permutation)"
      by (simp only: zmod_int)
    finally show ?thesis by (simp only: nat_int)
  qed
  have "training_generator permutation requested_size per_loop loops =
        run_loops permutation ?m ?N per_loop loops 0"
    by (simp add: training_generator_def Let_def)
  also have "\<dots> = Returns (map (\<lambda>n. map (\<lambda>t. map (\<lambda>j. permutation !
                   nat ((0 + int (n * per_loop + t) * ?m + int j) mod ?N)) [0..<nat ?m])
                 [0..<per_loop]) [0..<loops])"
  proof (rule run_loops_cyclic [OF refl m(1,2)])
    show "(0::int) \<le> 0" by simp
    show "0 < ?N" using assms(1) by (cases permutation) simp_all
  qed
  finally have feeds: "training_generator permutation requested_size per_loop loops =
     Returns (map (\<lambda>n. map (\<lambda>t. map (\<lambda>j. permutation !
                   (((n * per_loop + t) * m + j) mod length permutation)) [0..<m])
                 [0..<per_loop]) [0..<loops])"
    unfolding position using assms(3) by simp
  have positions: "gather_while (int m) ?N
        \<lparr>minibatch_indices = [], minibatch_start_index = start\<rparr> =
      Some \<lparr>minibatch_indices = map (\<lambda>j. (start + int j) mod ?N) [0..<m],
            minibatch_start_index = (start + int m) mod ?N\<rparr>"
    if "0 \<le> start" "start < ?N" for start
  proof -
    have "0 \<le> int m" "int m \<le> ?N" using m(2,3) by simp_all
    from gather_while_fresh [OF that this] show ?thesis by simp
  qed
  show ?thesis using feeds positions by blast
qed

theorem training_generator_cyclic_minibatches_witness:
  "training_generator [2, 0, 1] 2 2 2 = Returns [[[2, 0], [1, 2]], [[0, 1], [2, 0]]] \<and>
   gather_while 2 3 \<lparr>minibatch_indices = [], minibatch_start_index = 1\<rparr> =
     Some \<lparr>minibatch_indices = [1, 2], minibatch_start_index = 0\<rparr>"
proof -
  note facts = training_generator_cyclic_minibatches [of "[2, 0, 1]" 2 2 2 2]
  have feeds: "training_generator [2, 0, 1] 2 2 2 =
      Returns [[[2, 0], [1, 2]], [[0, 1], [2, 0]]]"
    using facts by (simp add: upt_rec)
  from facts have "\<forall>start. 0 \<le> start \<and> start < int (length [2, 0, 1 :: nat]) \<longrightarrow>
      gather_while (int 2) (int (length [2, 0, 1 :: nat]))
        \<lparr>minibatch_indices = [], minibatch_start_index = start\<rparr> =
      Some \<lparr>minibatch_indices =
              map (\<lambda>j. (start + int j) mod int (length [2, 0, 1 :: nat])) [0..<2],
            minibatch_start_index = (start + int 2) mod int (length [2, 0, 1 :: nat])\<rparr>"
    by simp
  from this [rule_format, of 1]
  have "gather_while 2 3 \<lparr>minibatch_indices = [], minibatch_start_index = 1\<rparr> =
     Some \<lparr>minibatch_indices = [1, 2], minibatch_start_index = 0\<rparr>"
    by (simp add: upt_rec)
  with feeds show ?thesis by simp
qed

section \<open>Column fixing after binarization\<close>

lemma df_columns_setitem_scalar:
  "set (df_columns (setitem_scalar df c v)) = insert c (set (df_columns df))"
  by (auto simp: df_columns_def setitem_scalar_def update_keys)

lemma fix_test_loop_result:
  "fix_test_loop cs train test missing = (test', missing') \<Longrightarrow>
     set (df_columns test') = set (df_columns test) \<union> set cs \<and>
     (cs = [] \<longrightarrow> missing' = missing) \<and>
     (cs \<noteq> [] \<longrightarrow>
        missing' = Some (set_difference (df_columns test') (df_columns train)))"
proof (induction cs arbitrary: test missing)
  case Nil
  then show ?case by simp
next
  case (Cons c cs)
  let ?test1 = "setitem_scalar test c 0"
  let ?missing1 = "Some (set_difference (df_columns ?test1) (df_columns train))"
  from Cons.prems have run: "fix_test_loop cs train ?test1 ?missing1 = (test', missing')"
    by (simp add: Let_def)
  from Cons.IH [OF run] run show ?case
    by (cases "cs = []") (auto simp: df_columns_setitem_scalar)
qed

lemma df_columns_getitem_list:
  "getitem_list df cs = Inr df' \<Longrightarrow> df_columns df' = cs"
  by (auto simp: getitem_list_def df_columns_def comp_def split: if_splits)

lemma fix_train_loop_result:
  "fix_train_loop cs train test = Inr train' \<Longrightarrow>
     (cs = [] \<and> train' = train) \<or> df_columns train' = df_columns test"
proof (induction cs arbitrary: train)
  case Nil
  then show ?case by simp
next
  case (Cons c cs)
  from Cons.prems obtain train1 where
    sel: "getitem_list (setitem_scalar train c 0) (df_columns test) = Inr train1"
    and rest: "fix_train_loop cs train1 test = Inr train'"
    by (auto simp: Let_def split: sum.splits)
  from Cons.IH [OF rest] df_columns_getitem_list [OF sel] show ?case by auto
qed

lemma set_set_difference [simp]: "set (set_difference xs ys) = set xs - set ys"
  by (auto simp: set_difference_def)

lemma fix_columns_same_columns:
  assumes "fix_columns input_train_df input_test_df = Inr (fixed_train_df, fixed_test_df)"
  shows "set (df_columns fixed_train_df) = set (df_columns fixed_test_df)"
proof -
  let ?missing = "set_difference (df_columns input_train_df) (df_columns input_test_df)"
  obtain test' miss where loop1:
    "fix_test_loop ?missing input_train_df input_test_df None = (test', miss)"
    by (cases "fix_test_loop ?missing input_train_df input_test_df None")
  from assms loop1 obtain cs where miss: "miss = Some cs"
    and loop2: "fix_train_loop cs input_train_df test' = Inr fixed_train_df"
    and te: "fixed_test_df = test'"
    by (auto simp: fix_columns_def Let_def split: option.splits sum.splits)
  note r1 = fix_test_loop_result [OF loop1]
  from r1 miss have ne: "?missing \<noteq> []" by auto
  with r1 miss have cs: "cs = set_difference (df_columns test') (df_columns input_train_df)"
    by auto
  from r1 have cols: "set (df_columns test') =
      set (df_columns input_test_df) \<union> set (df_columns input_train_df)"
    by auto
  from fix_train_loop_result [OF loop2] show ?thesis
  proof
    assume "cs = [] \<and> fixed_train_df = input_train_df"
    then have "set (df_columns test') - set (df_columns input_train_df) = {}"
      and "fixed_train_df = input_train_df"
      using cs set_set_difference [of "df_columns test'" "df_columns input_train_df"] by auto
    then show ?thesis using cols te by auto
  next
    assume "df_columns fixed_train_df = df_columns test'"
    then show ?thesis using te by simp
  qed
qed

text \<open>
  C6. The claim is that \<open>binarize_categorical_columns\<close> returns normally for every
  pair of frames, with the same set of columns in both results. The code raises instead
  on two kinds of input. When the test frame already has every column of the train
  frame, the first loop of \<open>fix_columns\<close> does not run, \<open>train_df_missing_cols\<close> is never
  assigned, and reading it raises \<open>UnboundLocalError\<close>. When the test frame has two or
  more columns that the train frame lacks, the column selection inside the second loop
  asks for a column that has not been added yet and raises \<open>KeyError\<close>.
\<close>

theorem binarize_categorical_columns_raises:
  "binarize_categorical_columns get_dummies_no_columns
     \<lparr>shape0 = 1, columns = [(''label'', [1 :: int])]\<rparr>
     \<lparr>shape0 = 1, columns = [(''label'', [0])]\<rparr> [] = Inl UnboundLocalError \<and>
   binarize_categorical_columns get_dummies_no_columns
     \<lparr>shape0 = 1, columns = [(''label'', [1 :: int]), (''x'', [1])]\<rparr>
     \<lparr>shape0 = 1, columns = [(''label'', [0]), (''y'', [1]), (''z'', [0])]\<rparr> [] =
     Inl KeyError"
  by (simp add: binarize_categorical_columns_def get_dummies_no_columns_def fix_columns_def
      set_difference_def df_columns_def setitem_scalar_def getitem_list_def)

lemma fix_columns_returns_example:
  "fix_columns
     \<lparr>shape0 = 1, columns = [(''label'', [1 :: int]), (''x'', [1])]\<rparr>
     \<lparr>shape0 = 2, columns = [(''label'', [0, 1]), (''y'', [1, 1])]\<rparr> =
   Inr (\<lparr>shape0 = 1, columns = [(''label'', [1]), (''y'', [0]), (''x'', [1])]\<rparr>,
        \<lparr>shape0 = 2, columns = [(''label'', [0, 1]), (''y'', [1, 1]), (''x'', [0, 0])]\<rparr>)"
  by (simp add: fix_columns_def set_difference_def df_columns_def setitem_scalar_def
      getitem_list_def numeral_2_eq_2)

end
